theory Spec2Isabelle
  imports Complex_Main
begin

section \<open>The service of \<^verbatim>\<open>src/src/main.py\<close>\<close>

text \<open>
  The program is a Flask application with five views (\<^verbatim>\<open>index\<close>, \<^verbatim>\<open>health\<close>,
  \<^verbatim>\<open>ready\<close>, \<^verbatim>\<open>metrics\<close>, \<^verbatim>\<open>predict\<close>), a \<^verbatim>\<open>before_request\<close> hook that
  stamps the request and an \<^verbatim>\<open>after_request\<close> hook that updates three Prometheus
  metric families. The process-wide metric families are the only state; the model
  passes them explicitly as a record. Clock readings (\<^verbatim>\<open>time.time()\<close>,
  \<^verbatim>\<open>datetime.utcnow()\<close>) are inputs of the functions that read them.
\<close>

subsection \<open>JSON values\<close>

text \<open>
  The Python values that \<^verbatim>\<open>json.loads\<close> produces and \<^verbatim>\<open>jsonify\<close> serialises.
  \<open>JNull\<close> is Python's \<^verbatim>\<open>None\<close>. A dict is kept as an association list. Float
  literals of the source are the rational numbers they denote.
\<close>

datatype json =
    JNull
  | JBool bool
  | JInt int
  | JFloat real
  | JStr string
  | JArr "json list"
  | JObj "(string \<times> json) list"

text \<open>Python truthiness, as tested by \<^verbatim>\<open>if not data\<close>.\<close>

fun truthy :: "json \<Rightarrow> bool" where
  "truthy JNull = False"
| "truthy (JBool b) = b"
| "truthy (JInt n) = (n \<noteq> 0)"
| "truthy (JFloat x) = (x \<noteq> 0)"
| "truthy (JStr s) = (s \<noteq> [])"
| "truthy (JArr xs) = (xs \<noteq> [])"
| "truthy (JObj kvs) = (kvs \<noteq> [])"

text \<open>Reading a field of a JSON object; \<open>None\<close> when the value is no object or
  has no such key.\<close>

fun field :: "json \<Rightarrow> string \<Rightarrow> json option" where
  "field (JObj kvs) k = map_of kvs k"
| "field _ k = None"

subsection \<open>Timestamps\<close>

text \<open>
  A naive \<^verbatim>\<open>datetime\<close>, as \<^verbatim>\<open>datetime.utcnow()\<close> returns it: the UTC wall clock, with
  no zone attached. \<open>valid_datetime\<close> is the range every \<^verbatim>\<open>datetime\<close> object is in.
\<close>

record datetime =
  year :: nat
  month :: nat
  day :: nat
  hour :: nat
  minute :: nat
  second :: nat
  microsecond :: nat

definition valid_datetime :: "datetime \<Rightarrow> bool" where
  "valid_datetime d =
     (1 \<le> year d \<and> year d \<le> 9999 \<and> 1 \<le> month d \<and> month d \<le> 12 \<and>
      1 \<le> day d \<and> day d \<le> 31 \<and> hour d < 24 \<and> minute d < 60 \<and> second d < 60 \<and>
      microsecond d < 1000000)"

definition digit :: "nat \<Rightarrow> char" where
  "digit n = char_of (48 + n mod 10)"

definition dec2 :: "nat \<Rightarrow> string" where
  "dec2 n = [digit (n div 10), digit n]"

definition dec4 :: "nat \<Rightarrow> string" where
  "dec4 n = [digit (n div 1000), digit (n div 100), digit (n div 10), digit n]"

definition dec6 :: "nat \<Rightarrow> string" where
  "dec6 n = [digit (n div 100000), digit (n div 10000), digit (n div 1000),
             digit (n div 100), digit (n div 10), digit n]"

text \<open>
  \<^verbatim>\<open>datetime.isoformat()\<close> of a naive datetime: \<^verbatim>\<open>YYYY-MM-DDTHH:MM:SS\<close>, followed by
  \<^verbatim>\<open>.ffffff\<close> when the microsecond is not zero. The fixed-width decimals are Python's
  \<^verbatim>\<open>%04d\<close>, \<^verbatim>\<open>%02d\<close> and \<^verbatim>\<open>%06d\<close> on a valid datetime.
\<close>

definition isoformat :: "datetime \<Rightarrow> string" where
  "isoformat d =
     dec4 (year d) @ ''-'' @ dec2 (month d) @ ''-'' @ dec2 (day d) @ ''T'' @
     dec2 (hour d) @ '':'' @ dec2 (minute d) @ '':'' @ dec2 (second d) @
     (if microsecond d \<noteq> 0 then ''.'' @ dec6 (microsecond d) else [])"

text \<open>Reading the string back: the decimal value of a digit string, \<open>None\<close> when a
  character is no digit.\<close>

definition digit_val :: "char \<Rightarrow> nat option" where
  "digit_val c =
     (let n = (of_char c :: nat) in if 48 \<le> n \<and> n \<le> 57 then Some (n - 48) else None)"

fun decimal :: "nat \<Rightarrow> string \<Rightarrow> nat option" where
  "decimal acc [] = Some acc"
| "decimal acc (c # cs) =
     (case digit_val c of None \<Rightarrow> None | Some v \<Rightarrow> decimal (10 * acc + v) cs)"

text \<open>
  The extended ISO-8601 date and time of day, \<^verbatim>\<open>YYYY-MM-DDTHH:MM:SS\<close> with an optional
  fraction of six digits: the separators are in place, every other character is a
  digit, and the fields read back are in range.
\<close>

definition parse_iso8601 :: "string \<Rightarrow> datetime option" where
  "parse_iso8601 s =
     (if (length s = 19 \<or> (length s = 26 \<and> s ! 19 = CHR ''.'')) \<and>
         s ! 4 = CHR ''-'' \<and> s ! 7 = CHR ''-'' \<and> s ! 10 = CHR ''T'' \<and>
         s ! 13 = CHR '':'' \<and> s ! 16 = CHR '':''
      then
        (case (decimal 0 (take 4 s), decimal 0 (take 2 (drop 5 s)),
               decimal 0 (take 2 (drop 8 s)), decimal 0 (take 2 (drop 11 s)),
               decimal 0 (take 2 (drop 14 s)), decimal 0 (take 2 (drop 17 s)),
               decimal 0 (drop 20 s)) of
           (Some y, Some mo, Some d, Some h, Some mi, Some se, Some us) \<Rightarrow>
             Some \<lparr>year = y, month = mo, day = d, hour = h, minute = mi, second = se,
                   microsecond = us\<rparr>
         | _ \<Rightarrow> None)
      else None)"

definition iso8601_wf :: "string \<Rightarrow> bool" where
  "iso8601_wf s = (case parse_iso8601 s of None \<Rightarrow> False | Some d \<Rightarrow> valid_datetime d)"

subsection \<open>The metrics registry\<close>

text \<open>
  The classes \<^verbatim>\<open>Counter\<close> and \<^verbatim>\<open>Histogram\<close> and the function \<^verbatim>\<open>generate_latest\<close> are
  imported from \<^verbatim>\<open>prometheus_client\<close>, which is not part of the source. They are
  modelled from the spec's description of the metrics registry: a counter is an
  integer metric, and a series is identified by the name of the metric and the tuple
  of its label values.

  A metric family maps a tuple of label values to the state of one series (a child).
  The series are kept in the order in which they were created.
\<close>

type_synonym ('l, 'v) family = "('l \<times> 'v) list"

text \<open>Modelled from the spec: \<^verbatim>\<open>labels(...)\<close> of \<^verbatim>\<open>prometheus_client\<close>, the lookup
  of a label combination, which "creates the label combination's entry at zero if
  absent".\<close>

definition labels :: "'l \<Rightarrow> 'v \<Rightarrow> ('l, 'v) family \<Rightarrow> ('l, 'v) family" where
  "labels l zero fam = (case map_of fam l of None \<Rightarrow> fam @ [(l, zero)] | Some v \<Rightarrow> fam)"

text \<open>Modelled from the spec: the update of the one child of a
  \<^verbatim>\<open>prometheus_client\<close> metric that has the given label values; the other series are
  not touched.\<close>

fun child_update :: "'l \<Rightarrow> ('v \<Rightarrow> 'v) \<Rightarrow> ('l, 'v) family \<Rightarrow> ('l, 'v) family" where
  "child_update l f [] = []"
| "child_update l f ((k, v) # fam) =
     (if k = l then (k, f v) # fam else (k, v) # child_update l f fam)"

text \<open>Modelled from the spec: \<^verbatim>\<open>increment_counter\<close>, which is
  \<^verbatim>\<open>Counter.labels(...).inc()\<close> of \<^verbatim>\<open>prometheus_client\<close> in the source: the series is
  created at zero if absent, "then adds 1".\<close>

definition inc :: "'l \<Rightarrow> ('l, nat) family \<Rightarrow> ('l, nat) family" where
  "inc l fam = child_update l (\<lambda>v. v + 1) (labels l 0 fam)"

text \<open>The value a counter series shows; a series that does not exist yet shows
  nothing and counts as zero here.\<close>

definition counter_value :: "('l, nat) family \<Rightarrow> 'l \<Rightarrow> nat" where
  "counter_value fam l = (case map_of fam l of None \<Rightarrow> 0 | Some v \<Rightarrow> v)"

text \<open>
  Modelled from the spec: the state of one series of a \<^verbatim>\<open>Histogram\<close> of
  \<^verbatim>\<open>prometheus_client\<close>: a running sum, a count and one cumulative count per upper
  bound; the bucket \<^verbatim>\<open>+Inf\<close> is the count.
\<close>

record histogram =
  bucket_counts :: "nat list"
  hsum :: real
  hcount :: nat

text \<open>Modelled from the spec: the thresholds of the buckets, which the spec leaves
  open and the source does not set: the default buckets of \<^verbatim>\<open>prometheus_client\<close>, in
  seconds.\<close>

definition upper_bounds :: "real list" where
  "upper_bounds = [5 / 1000, 1 / 100, 25 / 1000, 5 / 100, 75 / 1000, 1 / 10, 25 / 100,
                   5 / 10, 75 / 100, 1, 25 / 10, 5, 75 / 10, 10]"

text \<open>Modelled from the spec: the state of a histogram series of
  \<^verbatim>\<open>prometheus_client\<close> when it is created.\<close>

definition zero_histogram :: histogram where
  "zero_histogram =
     \<lparr>bucket_counts = replicate (length upper_bounds) 0, hsum = 0, hcount = 0\<rparr>"

text \<open>Modelled from the spec: one observation, \<^verbatim>\<open>observe(x)\<close> of
  \<^verbatim>\<open>prometheus_client\<close>, which "updates sum, count, and all bucket counts whose
  threshold \<open>\<ge>\<close> value"; the value is not checked.\<close>

definition observe_value :: "real \<Rightarrow> histogram \<Rightarrow> histogram" where
  "observe_value x h =
     \<lparr>bucket_counts = map2 (\<lambda>b c. if x \<le> b then c + 1 else c) upper_bounds (bucket_counts h),
      hsum = hsum h + x,
      hcount = hcount h + 1\<rparr>"

text \<open>Modelled from the spec: \<^verbatim>\<open>observe_histogram\<close>, which is
  \<^verbatim>\<open>Histogram.labels(...).observe(x)\<close> of \<^verbatim>\<open>prometheus_client\<close> in the source.\<close>

definition observe :: "'l \<Rightarrow> real \<Rightarrow> ('l, histogram) family \<Rightarrow> ('l, histogram) family" where
  "observe l x fam = child_update l (observe_value x) (labels l zero_histogram fam)"

text \<open>The state a histogram series shows; that of a new series when it does not
  exist yet.\<close>

definition histogram_of :: "('l, histogram) family \<Rightarrow> 'l \<Rightarrow> histogram" where
  "histogram_of fam l = (case map_of fam l of None \<Rightarrow> zero_histogram | Some h \<Rightarrow> h)"

text \<open>
  The three module-level metrics of the source, with their label names:
  \<^verbatim>\<open>REQUEST_COUNT\<close> by (method, endpoint, status), \<^verbatim>\<open>REQUEST_LATENCY\<close> by
  (method, endpoint), \<^verbatim>\<open>PREDICTIONS_COUNT\<close> by (model). The status label is the
  integer status code, which the library writes in decimal.
\<close>

record registry =
  REQUEST_COUNT :: "(string \<times> string \<times> nat, nat) family"
  REQUEST_LATENCY :: "(string \<times> string, histogram) family"
  PREDICTIONS_COUNT :: "(string, nat) family"

definition empty_registry :: registry where
  "empty_registry = \<lparr>REQUEST_COUNT = [], REQUEST_LATENCY = [], PREDICTIONS_COUNT = []\<rparr>"

text \<open>
  Modelled from the spec: one line of the exposition that \<^verbatim>\<open>generate_latest\<close> of
  \<^verbatim>\<open>prometheus_client\<close> renders: the series and its value. The bound of a bucket
  sample is \<open>None\<close> for \<^verbatim>\<open>+Inf\<close>.
\<close>

datatype sample =
    Http_requests_total string string nat nat
  | Http_request_duration_seconds_bucket string string "real option" nat
  | Http_request_duration_seconds_count string string nat
  | Http_request_duration_seconds_sum string string real
  | Predictions_total string nat

text \<open>Modelled from the spec: the lines of one histogram series in the exposition
  of \<^verbatim>\<open>prometheus_client\<close>.\<close>

definition render_histogram :: "(string \<times> string) \<times> histogram \<Rightarrow> sample list" where
  "render_histogram = (\<lambda>((m, e), h).
     map2 (\<lambda>b c. Http_request_duration_seconds_bucket m e (Some b) c)
       upper_bounds (bucket_counts h) @
     [Http_request_duration_seconds_bucket m e None (hcount h),
      Http_request_duration_seconds_count m e (hcount h),
      Http_request_duration_seconds_sum m e (hsum h)])"

text \<open>
  Modelled from the spec: \<^verbatim>\<open>render\<close>, which is \<^verbatim>\<open>generate_latest\<close> of
  \<^verbatim>\<open>prometheus_client\<close> in the source: "a deterministic text snapshot of all registered
  metrics, one series per label combination", the metrics in the order of their
  registration. The collectors of the Python runtime and of the process, which the
  library registers by itself, are left out.
\<close>

definition generate_latest :: "registry \<Rightarrow> sample list" where
  "generate_latest reg =
     map (\<lambda>((m, e, s), v). Http_requests_total m e s v) (REQUEST_COUNT reg) @
     concat (map render_histogram (REQUEST_LATENCY reg)) @
     map (\<lambda>(m, v). Predictions_total m v) (PREDICTIONS_COUNT reg)"

text \<open>Reading a rendered exposition: the value shown for a counter series, \<open>None\<close>
  when the exposition has no line for it.\<close>

fun shown_requests_total :: "sample list \<Rightarrow> string \<times> string \<times> nat \<Rightarrow> nat option" where
  "shown_requests_total [] k = None"
| "shown_requests_total (Http_requests_total m e s v # ls) k =
     (if k = (m, e, s) then Some v else shown_requests_total ls k)"
| "shown_requests_total (_ # ls) k = shown_requests_total ls k"

fun shown_predictions_total :: "sample list \<Rightarrow> string \<Rightarrow> nat option" where
  "shown_predictions_total [] k = None"
| "shown_predictions_total (Predictions_total m v # ls) k =
     (if k = m then Some v else shown_predictions_total ls k)"
| "shown_predictions_total (_ # ls) k = shown_predictions_total ls k"

subsection \<open>Requests and responses\<close>

text \<open>
  What Flask does with a request before and around the code of the source is an input
  of the model. \<open>Call v\<close>: the URL map selected the view \<open>v\<close> and Flask calls it.
  \<open>Flask_response e s\<close>: Flask answers by itself with status \<open>s\<close>, and
  \<^verbatim>\<open>request.endpoint\<close> is \<open>e\<close> (\<open>None\<close> with 404 and 405 for a request that matches
  no rule).
\<close>

datatype view = Index | Health | Ready | Metrics | Predict

datatype dispatch = Call view | Flask_response "string option" nat

text \<open>
  The outcome of \<^verbatim>\<open>request.get_json()\<close>, called with its default arguments. Flask
  returns the parsed body; it raises \<^verbatim>\<open>BadRequest\<close> when the body of a request with a
  JSON content type does not parse; for a request without a JSON content type it
  returns \<^verbatim>\<open>None\<close> or raises \<^verbatim>\<open>UnsupportedMediaType\<close>, depending on its version.
\<close>

datatype http_exception = BadRequest | UnsupportedMediaType

datatype get_json_outcome = Returns json | Raises http_exception

text \<open>
  The request object, as far as the source reads it: \<open>req_method\<close> is
  \<^verbatim>\<open>request.method\<close>; \<open>start_time\<close> is the attribute that \<^verbatim>\<open>before_request\<close> adds,
  \<open>None\<close> while the attribute does not exist.
\<close>

record request =
  req_method :: string
  dispatch :: dispatch
  get_json :: get_json_outcome
  start_time :: "real option"

text \<open>The body of a response: the JSON document of \<^verbatim>\<open>jsonify\<close>, the exposition of
  the metrics, or a page that Flask writes by itself.\<close>

datatype payload = Json json | Text "sample list" | Flask_page

record response =
  status_code :: nat
  payload :: payload

text \<open>The exposition a response carries; empty for a response that carries none.\<close>

definition exposition :: "response \<Rightarrow> sample list" where
  "exposition resp = (case payload resp of Text ls \<Rightarrow> ls | _ \<Rightarrow> [])"

definition jsonify :: "(string \<times> json) list \<Rightarrow> payload" where
  "jsonify d = Json (JObj d)"

text \<open>The endpoint of a view is the name of its function.\<close>

fun view_name :: "view \<Rightarrow> string" where
  "view_name Index = ''index''"
| "view_name Health = ''health''"
| "view_name Ready = ''ready''"
| "view_name Metrics = ''metrics''"
| "view_name Predict = ''predict''"

fun endpoint :: "request \<Rightarrow> string option" where
  "endpoint req = (case dispatch req of Call v \<Rightarrow> Some (view_name v) | Flask_response e s \<Rightarrow> e)"

text \<open>\<^verbatim>\<open>request.endpoint or 'unknown'\<close>: Python's \<^verbatim>\<open>or\<close> takes the right operand for
  \<^verbatim>\<open>None\<close> and for the empty string.\<close>

definition endpoint_or_unknown :: "request \<Rightarrow> string" where
  "endpoint_or_unknown req =
     (case endpoint req of None \<Rightarrow> ''unknown'' | Some e \<Rightarrow> if e = [] then ''unknown'' else e)"

subsection \<open>The hooks\<close>

definition before_request :: "real \<Rightarrow> request \<Rightarrow> request" where
  "before_request now req = req\<lparr>start_time := Some now\<rparr>"

text \<open>\<open>now\<close> is the reading of \<^verbatim>\<open>time.time()\<close>; the latency is not checked.\<close>

definition after_request :: "real \<Rightarrow> request \<Rightarrow> response \<Rightarrow> registry \<Rightarrow> response \<times> registry" where
  "after_request now req resp reg =
     (let reg1 =
        (case start_time req of
           Some t0 \<Rightarrow>
             reg\<lparr>REQUEST_LATENCY :=
                   observe (req_method req, endpoint_or_unknown req) (now - t0) (REQUEST_LATENCY reg)\<rparr>
         | None \<Rightarrow> reg);
          reg2 =
            reg1\<lparr>REQUEST_COUNT :=
                   inc (req_method req, endpoint_or_unknown req, status_code resp) (REQUEST_COUNT reg1)\<rparr>
      in (resp, reg2))"

subsection \<open>The views\<close>

definition health :: "datetime \<Rightarrow> response" where
  "health utcnow =
     \<lparr>status_code = 200,
      payload = jsonify [(''status'', JStr ''healthy''),
                         (''timestamp'', JStr (isoformat utcnow)),
                         (''version'', JStr ''1.0.0'')]\<rparr>"

text \<open>
  The local dict \<^verbatim>\<open>checks\<close> of \<^verbatim>\<open>ready\<close> and the statement that follows it, as a
  function of the dict. \<^verbatim>\<open>all(checks.values())\<close> is \<open>list_all snd\<close>.
\<close>

definition checks :: "(string \<times> bool) list" where
  "checks = [(''model_loaded'', True), (''aws_connection'', True)]"

definition ready_of :: "(string \<times> bool) list \<Rightarrow> datetime \<Rightarrow> response" where
  "ready_of cs utcnow =
     (if list_all snd cs then
        \<lparr>status_code = 200,
         payload = jsonify [(''status'', JStr ''ready''),
                            (''checks'', JObj (map (\<lambda>(k, b). (k, JBool b)) cs)),
                            (''timestamp'', JStr (isoformat utcnow))]\<rparr>
      else
        \<lparr>status_code = 503,
         payload = jsonify [(''status'', JStr ''not ready''),
                            (''checks'', JObj (map (\<lambda>(k, b). (k, JBool b)) cs)),
                            (''timestamp'', JStr (isoformat utcnow))]\<rparr>)"

definition ready :: "datetime \<Rightarrow> response" where
  "ready utcnow = ready_of checks utcnow"

definition metrics :: "registry \<Rightarrow> response \<times> registry" where
  "metrics reg = (\<lparr>status_code = 200, payload = Text (generate_latest reg)\<rparr>, reg)"

text \<open>
  \<^verbatim>\<open>predict\<close>: the only statement of the \<^verbatim>\<open>try\<close> block that raises is
  \<^verbatim>\<open>request.get_json()\<close>; the handler \<^verbatim>\<open>except Exception\<close> catches what it raises.
  The counter is incremented after the test of the data and before the response is
  built.
\<close>

definition predict :: "request \<Rightarrow> datetime \<Rightarrow> registry \<Rightarrow> response \<times> registry" where
  "predict req utcnow reg =
     (case get_json req of
        Raises e \<Rightarrow>
          (\<lparr>status_code = 500, payload = jsonify [(''error'', JStr ''Internal server error'')]\<rparr>,
           reg)
      | Returns data \<Rightarrow>
          if \<not> truthy data then
            (\<lparr>status_code = 400,
              payload = jsonify [(''error'', JStr ''No input data provided'')]\<rparr>,
             reg)
          else
            (let result = [(''prediction'', JStr ''example_result''),
                           (''confidence'', JFloat (95 / 100)),
                           (''model_version'', JStr ''1.0.0''),
                           (''timestamp'', JStr (isoformat utcnow))];
                 reg1 = reg\<lparr>PREDICTIONS_COUNT := inc ''v1'' (PREDICTIONS_COUNT reg)\<rparr>
             in (\<lparr>status_code = 200, payload = jsonify result\<rparr>, reg1)))"

definition index :: response where
  "index =
     \<lparr>status_code = 200,
      payload = jsonify [(''service'', JStr ''iNFINITE AI 2025''),
                         (''version'', JStr ''1.0.0''),
                         (''endpoints'', JObj [(''health'', JStr ''/health''),
                                               (''ready'', JStr ''/ready''),
                                               (''metrics'', JStr ''/metrics''),
                                               (''predict'', JStr ''/predict (POST)'')])]\<rparr>"

subsection \<open>One request, and a sequence of requests\<close>

text \<open>The readings of the clocks during one request: \<^verbatim>\<open>time.time()\<close> in
  \<^verbatim>\<open>before_request\<close>, \<^verbatim>\<open>datetime.utcnow()\<close> in the view, \<^verbatim>\<open>time.time()\<close> in
  \<^verbatim>\<open>after_request\<close>.\<close>

record clock =
  t_before :: real
  utcnow_view :: datetime
  t_after :: real

definition dispatch_request :: "request \<Rightarrow> datetime \<Rightarrow> registry \<Rightarrow> response \<times> registry" where
  "dispatch_request req utcnow reg =
     (case dispatch req of
        Call Index \<Rightarrow> (index, reg)
      | Call Health \<Rightarrow> (health utcnow, reg)
      | Call Ready \<Rightarrow> (ready utcnow, reg)
      | Call Metrics \<Rightarrow> metrics reg
      | Call Predict \<Rightarrow> predict req utcnow reg
      | Flask_response e s \<Rightarrow> (\<lparr>status_code = s, payload = Flask_page\<rparr>, reg))"

text \<open>Flask runs the \<^verbatim>\<open>before_request\<close> hook, then the view, then the
  \<^verbatim>\<open>after_request\<close> hook on the response.\<close>

definition handle_request :: "clock \<Rightarrow> request \<Rightarrow> registry \<Rightarrow> response \<times> registry" where
  "handle_request clk req reg =
     (let req1 = before_request (t_before clk) req;
          (resp, reg1) = dispatch_request req1 (utcnow_view clk) reg
      in after_request (t_after clk) req1 resp reg1)"

fun serve :: "(clock \<times> request) list \<Rightarrow> registry \<Rightarrow> response list \<times> registry" where
  "serve [] reg = ([], reg)"
| "serve ((clk, req) # rs) reg =
     (let (resp, reg1) = handle_request clk req reg;
          (resps, reg2) = serve rs reg1
      in (resp # resps, reg2))"

text \<open>Modelled from the spec: the operations \<^verbatim>\<open>increment_counter\<close>,
  \<^verbatim>\<open>observe_histogram\<close> and \<^verbatim>\<open>render\<close> of the registry, on the three metrics of the
  source. \<open>Render\<close> reads the registry and changes nothing.\<close>

datatype registry_op =
    Inc_requests "string \<times> string \<times> nat"
  | Inc_predictions string
  | Observe_latency "string \<times> string" real
  | Render

fun apply_op :: "registry_op \<Rightarrow> registry \<Rightarrow> registry" where
  "apply_op (Inc_requests l) reg = reg\<lparr>REQUEST_COUNT := inc l (REQUEST_COUNT reg)\<rparr>"
| "apply_op (Inc_predictions l) reg = reg\<lparr>PREDICTIONS_COUNT := inc l (PREDICTIONS_COUNT reg)\<rparr>"
| "apply_op (Observe_latency l x) reg =
     reg\<lparr>REQUEST_LATENCY := observe l x (REQUEST_LATENCY reg)\<rparr>"
| "apply_op Render reg = reg"

fun apply_ops :: "registry_op list \<Rightarrow> registry \<Rightarrow> registry" where
  "apply_ops [] reg = reg"
| "apply_ops (op # ops) reg = apply_ops ops (apply_op op reg)"

section \<open>Properties\<close>

subsection \<open>Decimal digits and timestamps\<close>

lemma digit_val_digit: "digit_val (digit n) = Some (n mod 10)"
  by (simp add: digit_val_def digit_def Let_def)

lemma decimal_Cons_digit: "decimal acc (digit n # cs) = decimal (10 * acc + n mod 10) cs"
  by (simp add: digit_val_digit)

lemma div_div_10: "n div 10 div 10 = n div 100" "n div 100 div 10 = n div 1000"
  "n div 1000 div 10 = n div 10000" "n div 10000 div 10 = n div (100000::nat)"
  by (simp_all add: div_mult2_eq [symmetric])

lemma shift10: "10 * (m div 10) + m mod 10 = (m::nat)"
  by simp

lemma two_digits:
  assumes "n < 100"
  shows "10 * (n div 10 mod 10) + n mod 10 = (n::nat)"
proof -
  have "n div 10 < 10" using assms by simp
  then have "n div 10 mod 10 = n div 10" by simp
  then show ?thesis by simp
qed

lemma four_digits:
  assumes "n < 10000"
  shows "10 * (10 * (10 * (n div 1000 mod 10) + n div 100 mod 10) + n div 10 mod 10) + n mod 10 = (n::nat)"
proof -
  have "n div 1000 < 10" using assms by simp
  then have e4: "n div 1000 mod 10 = n div 1000" by simp
  have e3: "10 * (n div 1000) + n div 100 mod 10 = n div 100"
    using shift10 [of "n div 100"] by (simp only: div_div_10)
  have e2: "10 * (n div 100) + n div 10 mod 10 = n div 10"
    using shift10 [of "n div 10"] by (simp only: div_div_10)
  show ?thesis by (simp only: e4 e3 e2 shift10)
qed

lemma six_digits:
  assumes "n < 1000000"
  shows "10 * (10 * (10 * (10 * (10 * (n div 100000 mod 10) + n div 10000 mod 10) + n div 1000 mod 10)
            + n div 100 mod 10) + n div 10 mod 10) + n mod 10 = (n::nat)"
proof -
  have "n div 100000 < 10" using assms by simp
  then have e6: "n div 100000 mod 10 = n div 100000" by simp
  have e5: "10 * (n div 100000) + n div 10000 mod 10 = n div 10000"
    using shift10 [of "n div 10000"] by (simp only: div_div_10)
  have e4: "10 * (n div 10000) + n div 1000 mod 10 = n div 1000"
    using shift10 [of "n div 1000"] by (simp only: div_div_10)
  have e3: "10 * (n div 1000) + n div 100 mod 10 = n div 100"
    using shift10 [of "n div 100"] by (simp only: div_div_10)
  have e2: "10 * (n div 100) + n div 10 mod 10 = n div 10"
    using shift10 [of "n div 10"] by (simp only: div_div_10)
  show ?thesis by (simp only: e6 e5 e4 e3 e2 shift10)
qed

lemma decimal_dec2: "n < 100 \<Longrightarrow> decimal 0 (dec2 n) = Some n"
  unfolding dec2_def decimal_Cons_digit decimal.simps(1) mult_zero_right add_0
  by (simp only: two_digits)

lemma decimal_dec4: "n < 10000 \<Longrightarrow> decimal 0 (dec4 n) = Some n"
  unfolding dec4_def decimal_Cons_digit decimal.simps(1) mult_zero_right add_0
  by (simp only: four_digits)

lemma decimal_dec6: "n < 1000000 \<Longrightarrow> decimal 0 (dec6 n) = Some n"
  unfolding dec6_def decimal_Cons_digit decimal.simps(1) mult_zero_right add_0
  by (simp only: six_digits)

lemma digit_val_sep:
  "digit_val (CHR ''-'') = None" "digit_val (CHR ''T'') = None"
  "digit_val (CHR '':'') = None" "digit_val (CHR ''.'') = None"
  by (simp_all add: digit_val_def)

lemma digit_not_sep [simp]:
  "digit n \<noteq> CHR ''-''" "digit n \<noteq> CHR ''T''" "digit n \<noteq> CHR '':''" "digit n \<noteq> CHR ''.''"
proof -
  have "c \<noteq> digit n" if "digit_val c = None" for c
    using that digit_val_digit [of n] by (cases "c = digit n") simp_all
  from this [OF digit_val_sep(1)] this [OF digit_val_sep(2)] this [OF digit_val_sep(3)]
    this [OF digit_val_sep(4)]
  show "digit n \<noteq> CHR ''-''" "digit n \<noteq> CHR ''T''" "digit n \<noteq> CHR '':''" "digit n \<noteq> CHR ''.''"
    by (simp_all add: neq_commute)
qed

lemma length_dec [simp]: "length (dec2 n) = 2" "length (dec4 n) = 4" "length (dec6 n) = 6"
  by (simp_all add: dec2_def dec4_def dec6_def)

lemma parse_isoformat:
  assumes "valid_datetime d"
  shows "parse_iso8601 (isoformat d) = Some d"
proof -
  have r: "year d < 10000" "month d < 100" "day d < 100" "hour d < 100" "minute d < 100"
    "second d < 100" "microsecond d < 1000000"
    using assms by (simp_all add: valid_datetime_def)
  show ?thesis
  proof (cases "microsecond d = 0")
    case True
    then show ?thesis using r
      by (simp add: parse_iso8601_def isoformat_def decimal_dec2 decimal_dec4 nth_append)
  next
    case False
    then show ?thesis using r
      by (simp add: parse_iso8601_def isoformat_def decimal_dec2 decimal_dec4 decimal_dec6 nth_append)
  qed
qed

subsection \<open>Metric families\<close>

lemma map_of_child_update:
  "map_of (child_update l f fam) k = (if k = l then map_option f (map_of fam l) else map_of fam k)"
  by (induction fam) auto

lemma map_of_labels:
  "map_of (labels l z fam) k = (if k = l \<and> map_of fam l = None then Some z else map_of fam k)"
  by (auto simp: labels_def map_add_def split: option.splits)

lemma map_of_inc:
  "map_of (inc l fam) k = (if k = l then Some (counter_value fam l + 1) else map_of fam k)"
  by (simp add: inc_def map_of_child_update map_of_labels counter_value_def split: option.splits)

lemma map_of_observe:
  "map_of (observe l x fam) k =
     (if k = l then Some (observe_value x (histogram_of fam l)) else map_of fam k)"
  by (simp add: observe_def map_of_child_update map_of_labels histogram_of_def split: option.splits)

lemma counter_value_inc:
  "counter_value (inc l fam) k = (if k = l then counter_value fam l + 1 else counter_value fam k)"
  by (simp add: counter_value_def map_of_inc)

lemma histogram_of_observe:
  "histogram_of (observe l x fam) k =
     (if k = l then observe_value x (histogram_of fam l) else histogram_of fam k)"
  by (simp add: histogram_of_def map_of_observe)

lemma dispatch_request_frame:
  assumes "dispatch_request req now reg = (resp, reg1)"
  shows "REQUEST_COUNT reg1 = REQUEST_COUNT reg" and "REQUEST_LATENCY reg1 = REQUEST_LATENCY reg"
  using assms
  by (auto simp: dispatch_request_def metrics_def predict_def Let_def
      split: dispatch.splits view.splits get_json_outcome.splits if_splits)

lemma before_request_labels [simp]:
  "req_method (before_request t req) = req_method req"
  "endpoint_or_unknown (before_request t req) = endpoint_or_unknown req"
  "start_time (before_request t req) = Some t"
  "get_json (before_request t req) = get_json req"
  "dispatch (before_request t req) = dispatch req"
  by (simp_all add: before_request_def endpoint_or_unknown_def)

lemma handle_request_unfold:
  assumes "handle_request clk req reg = (resp, reg')"
  obtains reg1 where
    "dispatch_request (before_request (t_before clk) req) (utcnow_view clk) reg = (resp, reg1)"
    "reg' = reg1\<lparr>REQUEST_LATENCY :=
              observe (req_method req, endpoint_or_unknown req) (t_after clk - t_before clk)
                (REQUEST_LATENCY reg1),
            REQUEST_COUNT :=
              inc (req_method req, endpoint_or_unknown req, status_code resp) (REQUEST_COUNT reg1)\<rparr>"
  using assms
  by (auto simp: handle_request_def after_request_def Let_def split: prod.splits)

subsection \<open>Reading the exposition\<close>

lemma shown_requests_total_append:
  "shown_requests_total (xs @ ys) k =
     (case shown_requests_total xs k of None \<Rightarrow> shown_requests_total ys k | Some v \<Rightarrow> Some v)"
  by (induction xs k rule: shown_requests_total.induct) auto

lemma shown_predictions_total_append:
  "shown_predictions_total (xs @ ys) k =
     (case shown_predictions_total xs k of None \<Rightarrow> shown_predictions_total ys k | Some v \<Rightarrow> Some v)"
  by (induction xs k rule: shown_predictions_total.induct) auto

lemma shown_requests_total_family:
  "shown_requests_total (map (\<lambda>((m, e, s), v). Http_requests_total m e s v) fam) k = map_of fam k"
  by (induction fam) auto

lemma shown_predictions_total_family:
  "shown_predictions_total (map (\<lambda>(m, v). Predictions_total m v) fam) k = map_of fam k"
  by (induction fam) auto

lemma shown_requests_total_other:
  "shown_predictions_total (map (\<lambda>((m, e, s), v). Http_requests_total m e s v) fam) k = None"
  "shown_requests_total (map (\<lambda>(m, v). Predictions_total m v) pam) k' = None"
  by (induction fam, auto) (induction pam, auto)

lemma shown_buckets:
  "shown_requests_total
     (map2 (\<lambda>b c. Http_request_duration_seconds_bucket m e (Some b) c) bs cs) k = None"
  "shown_predictions_total
     (map2 (\<lambda>b c. Http_request_duration_seconds_bucket m e (Some b) c) bs cs) k' = None"
  by (induction bs arbitrary: cs; case_tac cs; simp)+

lemma shown_render_histogram:
  "shown_requests_total (render_histogram x) k = None"
  "shown_predictions_total (render_histogram x) k' = None"
  by (cases x; simp add: render_histogram_def shown_requests_total_append
      shown_predictions_total_append shown_buckets split: prod.splits)+

lemma shown_histograms:
  "shown_requests_total (concat (map render_histogram hs)) k = None"
  "shown_predictions_total (concat (map render_histogram hs)) k' = None"
  by (induction hs; simp add: shown_requests_total_append shown_predictions_total_append
      shown_render_histogram)+

lemma shown_requests_total_generate_latest:
  "shown_requests_total (generate_latest reg) k = map_of (REQUEST_COUNT reg) k"
  by (simp add: generate_latest_def shown_requests_total_append shown_requests_total_family
      shown_histograms shown_requests_total_other split: option.splits)

lemma shown_predictions_total_generate_latest:
  "shown_predictions_total (generate_latest reg) k = map_of (PREDICTIONS_COUNT reg) k"
  by (simp add: generate_latest_def shown_predictions_total_append shown_predictions_total_family
      shown_histograms shown_requests_total_other split: option.splits)

subsection \<open>The views and the hooks\<close>

lemma char_of_digits:
  "char_of (48::nat) = CHR ''0''" "char_of (49::nat) = CHR ''1''" "char_of (50::nat) = CHR ''2''"
  "char_of (51::nat) = CHR ''3''" "char_of (52::nat) = CHR ''4''" "char_of (53::nat) = CHR ''5''"
  "char_of (54::nat) = CHR ''6''" "char_of (55::nat) = CHR ''7''" "char_of (56::nat) = CHR ''8''"
  "char_of (57::nat) = CHR ''9''"
  by code_simp+

lemmas run_defs =
  handle_request_def dispatch_request_def after_request_def before_request_def
  endpoint_or_unknown_def empty_registry_def counter_value_def histogram_of_def
  zero_histogram_def inc_def observe_def labels_def observe_value_def upper_bounds_def
  metrics_def predict_def health_def ready_def ready_of_def checks_def index_def jsonify_def
  generate_latest_def render_histogram_def exposition_def Let_def

lemma dispatch_request_view:
  "dispatch req = Call Health \<Longrightarrow> dispatch_request req now reg = (health now, reg)"
  "dispatch req = Call Ready \<Longrightarrow> dispatch_request req now reg = (ready now, reg)"
  "dispatch req = Call Metrics \<Longrightarrow> dispatch_request req now reg = metrics reg"
  "dispatch req = Call Predict \<Longrightarrow> dispatch_request req now reg = predict req now reg"
  by (simp_all add: dispatch_request_def)

lemma fst_handle_request:
  "fst (handle_request clk req reg) =
     fst (dispatch_request (before_request (t_before clk) req) (utcnow_view clk) reg)"
  by (simp add: handle_request_def after_request_def Let_def split: prod.splits)

text \<open>
  C9: the two readiness checks are the constant \<open>True\<close>, so every request that reaches
  \<^verbatim>\<open>ready\<close> is answered with status 200, the status text \<^verbatim>\<open>ready\<close> and both checks
  true; the status 503 of the other branch is never produced.
\<close>

theorem ready_always_200:
  "ready now =
     \<lparr>status_code = 200,
      payload = Json (JObj [(''status'', JStr ''ready''),
                            (''checks'', JObj [(''model_loaded'', JBool True),
                                               (''aws_connection'', JBool True)]),
                            (''timestamp'', JStr (isoformat now))])\<rparr> \<and>
   status_code (ready now) \<noteq> 503 \<and>
   (dispatch req = Call Ready \<longrightarrow>
      fst (handle_request clk req reg) = ready (utcnow_view clk))"
  by (simp add: ready_def ready_of_def checks_def jsonify_def fst_handle_request
      dispatch_request_view)

theorem ready_always_200_witness:
  "status_code (fst (handle_request
     \<lparr>t_before = 10, utcnow_view = \<lparr>year = 2025, month = 1, day = 9, hour = 7, minute = 5,
        second = 0, microsecond = 0\<rparr>, t_after = 11\<rparr>
     \<lparr>req_method = ''GET'', dispatch = Call Ready, get_json = Returns JNull, start_time = None\<rparr>
     empty_registry)) = 200"
  using ready_always_200 [of "\<lparr>year = 2025, month = 1, day = 9, hour = 7, minute = 5,
        second = 0, microsecond = 0\<rparr>"
      "\<lparr>req_method = ''GET'', dispatch = Call Ready, get_json = Returns JNull, start_time = None\<rparr>"
      "\<lparr>t_before = 10, utcnow_view = \<lparr>year = 2025, month = 1, day = 9, hour = 7, minute = 5,
        second = 0, microsecond = 0\<rparr>, t_after = 11\<rparr>" empty_registry]
  by simp

text \<open>
  C6: the status of the readiness response is a function of the checks alone: 200 with
  the status text \<^verbatim>\<open>ready\<close> when every check is true, 503 with \<^verbatim>\<open>not ready\<close> when some
  check is false; the body reports the checks as they are.
\<close>

theorem ready_of_checks:
  "((\<forall>b \<in> set (map snd cs). b) \<longrightarrow>
      status_code (ready_of cs now) = 200 \<and>
      payload (ready_of cs now) =
        Json (JObj [(''status'', JStr ''ready''),
                    (''checks'', JObj (map (\<lambda>(k, b). (k, JBool b)) cs)),
                    (''timestamp'', JStr (isoformat now))])) \<and>
   ((\<exists>b \<in> set (map snd cs). \<not> b) \<longrightarrow>
      status_code (ready_of cs now) = 503 \<and>
      payload (ready_of cs now) =
        Json (JObj [(''status'', JStr ''not ready''),
                    (''checks'', JObj (map (\<lambda>(k, b). (k, JBool b)) cs)),
                    (''timestamp'', JStr (isoformat now))])) \<and>
   status_code (ready_of cs now) = status_code (ready_of cs now') \<and>
   ready now = ready_of checks now"
  by (auto simp: ready_of_def ready_def jsonify_def list_all_iff)

theorem ready_of_checks_witness:
  "status_code (ready_of [(''model_loaded'', True), (''aws_connection'', False)]
     \<lparr>year = 2025, month = 1, day = 9, hour = 7, minute = 5, second = 0, microsecond = 0\<rparr>) = 503 \<and>
   status_code (ready_of [(''model_loaded'', True), (''aws_connection'', True)]
     \<lparr>year = 2025, month = 1, day = 9, hour = 7, minute = 5, second = 0, microsecond = 0\<rparr>) = 200"
  using ready_of_checks [of "[(''model_loaded'', True), (''aws_connection'', False)]"
      "\<lparr>year = 2025, month = 1, day = 9, hour = 7, minute = 5, second = 0, microsecond = 0\<rparr>"]
    ready_of_checks [of "[(''model_loaded'', True), (''aws_connection'', True)]"
      "\<lparr>year = 2025, month = 1, day = 9, hour = 7, minute = 5, second = 0, microsecond = 0\<rparr>"]
  by auto

text \<open>
  C5: in every state of the registry, a request that reaches \<^verbatim>\<open>health\<close> is answered
  with status 200 and the object with status \<^verbatim>\<open>healthy\<close>, version \<^verbatim>\<open>1.0.0\<close> and the
  UTC clock reading in ISO-8601 form: the timestamp is well formed, and read back it
  is the clock reading.
\<close>

theorem health_always_200:
  assumes "dispatch req = Call Health" and "valid_datetime (utcnow_view clk)"
  shows "fst (handle_request clk req reg) =
           \<lparr>status_code = 200,
            payload = Json (JObj [(''status'', JStr ''healthy''),
                                  (''timestamp'', JStr (isoformat (utcnow_view clk))),
                                  (''version'', JStr ''1.0.0'')])\<rparr> \<and>
         iso8601_wf (isoformat (utcnow_view clk)) \<and>
         parse_iso8601 (isoformat (utcnow_view clk)) = Some (utcnow_view clk)"
  using assms
  by (simp add: fst_handle_request dispatch_request_view health_def jsonify_def iso8601_wf_def
      parse_isoformat)

theorem health_always_200_witness:
  "fst (handle_request
     \<lparr>t_before = 10, utcnow_view = \<lparr>year = 2025, month = 1, day = 9, hour = 7, minute = 5,
        second = 0, microsecond = 120\<rparr>, t_after = 11\<rparr>
     \<lparr>req_method = ''GET'', dispatch = Call Health, get_json = Returns JNull, start_time = None\<rparr>
     empty_registry) =
   \<lparr>status_code = 200,
    payload = Json (JObj [(''status'', JStr ''healthy''),
                          (''timestamp'', JStr ''2025-01-09T07:05:00.000120''),
                          (''version'', JStr ''1.0.0'')])\<rparr> \<and>
   iso8601_wf ''2025-01-09T07:05:00.000120''"
  using health_always_200 [of
      "\<lparr>req_method = ''GET'', dispatch = Call Health, get_json = Returns JNull, start_time = None\<rparr>"
      "\<lparr>t_before = 10, utcnow_view = \<lparr>year = 2025, month = 1, day = 9, hour = 7, minute = 5,
        second = 0, microsecond = 120\<rparr>, t_after = 11\<rparr>" empty_registry]
  by (simp add: valid_datetime_def isoformat_def dec2_def dec4_def dec6_def digit_def
      char_of_digits)


text \<open>
  C4: handling a request adds exactly one to the request counter series of the
  request's method, its endpoint and the status of the response, and leaves every
  other series of that counter as it was; it adds exactly one observation, the latency
  between the two hooks, to the histogram series of the method and the endpoint, and
  leaves every other histogram series as it was. The endpoint label is the name of
  the view that Flask calls (\<^verbatim>\<open>index\<close>, \<^verbatim>\<open>health\<close>, \<^verbatim>\<open>ready\<close>, \<^verbatim>\<open>metrics\<close>,
  \<^verbatim>\<open>predict\<close>); when Flask answers by itself it is \<^verbatim>\<open>request.endpoint\<close>, and
  \<^verbatim>\<open>unknown\<close> when the request has no endpoint or an empty one.
\<close>

theorem handle_request_counts_and_observes_once:
  assumes "handle_request clk req reg = (resp, reg')"
  shows "counter_value (REQUEST_COUNT reg') (req_method req, endpoint_or_unknown req, status_code resp) =
           counter_value (REQUEST_COUNT reg) (req_method req, endpoint_or_unknown req, status_code resp) + 1 \<and>
         (\<forall>k. k \<noteq> (req_method req, endpoint_or_unknown req, status_code resp) \<longrightarrow>
            map_of (REQUEST_COUNT reg') k = map_of (REQUEST_COUNT reg) k) \<and>
         histogram_of (REQUEST_LATENCY reg') (req_method req, endpoint_or_unknown req) =
           observe_value (t_after clk - t_before clk)
             (histogram_of (REQUEST_LATENCY reg) (req_method req, endpoint_or_unknown req)) \<and>
         hcount (histogram_of (REQUEST_LATENCY reg') (req_method req, endpoint_or_unknown req)) =
           hcount (histogram_of (REQUEST_LATENCY reg) (req_method req, endpoint_or_unknown req)) + 1 \<and>
         hsum (histogram_of (REQUEST_LATENCY reg') (req_method req, endpoint_or_unknown req)) =
           hsum (histogram_of (REQUEST_LATENCY reg) (req_method req, endpoint_or_unknown req)) +
           (t_after clk - t_before clk) \<and>
         (\<forall>k. k \<noteq> (req_method req, endpoint_or_unknown req) \<longrightarrow>
            map_of (REQUEST_LATENCY reg') k = map_of (REQUEST_LATENCY reg) k) \<and>
         endpoint_or_unknown req =
           (case dispatch req of
              Call Index \<Rightarrow> ''index''
            | Call Health \<Rightarrow> ''health''
            | Call Ready \<Rightarrow> ''ready''
            | Call Metrics \<Rightarrow> ''metrics''
            | Call Predict \<Rightarrow> ''predict''
            | Flask_response None s \<Rightarrow> ''unknown''
            | Flask_response (Some e) s \<Rightarrow> if e = [] then ''unknown'' else e) \<and>
         (\<forall>v. dispatch req = Call v \<longrightarrow>
            counter_value (REQUEST_COUNT reg') (req_method req, view_name v, status_code resp) =
              counter_value (REQUEST_COUNT reg) (req_method req, view_name v, status_code resp) + 1 \<and>
            hcount (histogram_of (REQUEST_LATENCY reg') (req_method req, view_name v)) =
              hcount (histogram_of (REQUEST_LATENCY reg) (req_method req, view_name v)) + 1 \<and>
            view_name v \<noteq> ''unknown'' \<and>
            map_of (REQUEST_COUNT reg') (req_method req, ''unknown'', status_code resp) =
              map_of (REQUEST_COUNT reg) (req_method req, ''unknown'', status_code resp) \<and>
            map_of (REQUEST_LATENCY reg') (req_method req, ''unknown'') =
              map_of (REQUEST_LATENCY reg) (req_method req, ''unknown''))"
proof -
  from assms obtain reg1 where
    d: "dispatch_request (before_request (t_before clk) req) (utcnow_view clk) reg = (resp, reg1)"
    and r: "reg' = reg1\<lparr>REQUEST_LATENCY :=
              observe (req_method req, endpoint_or_unknown req) (t_after clk - t_before clk)
                (REQUEST_LATENCY reg1),
            REQUEST_COUNT :=
              inc (req_method req, endpoint_or_unknown req, status_code resp) (REQUEST_COUNT reg1)\<rparr>"
    by (rule handle_request_unfold)
  note f = dispatch_request_frame [OF d]
  have c: "REQUEST_COUNT reg' =
      inc (req_method req, endpoint_or_unknown req, status_code resp) (REQUEST_COUNT reg)"
    and h: "REQUEST_LATENCY reg' =
      observe (req_method req, endpoint_or_unknown req) (t_after clk - t_before clk)
        (REQUEST_LATENCY reg)"
    by (simp_all add: r f)
  have series: "counter_value (REQUEST_COUNT reg') (req_method req, endpoint_or_unknown req, status_code resp) =
           counter_value (REQUEST_COUNT reg) (req_method req, endpoint_or_unknown req, status_code resp) + 1 \<and>
         (\<forall>k. k \<noteq> (req_method req, endpoint_or_unknown req, status_code resp) \<longrightarrow>
            map_of (REQUEST_COUNT reg') k = map_of (REQUEST_COUNT reg) k) \<and>
         histogram_of (REQUEST_LATENCY reg') (req_method req, endpoint_or_unknown req) =
           observe_value (t_after clk - t_before clk)
             (histogram_of (REQUEST_LATENCY reg) (req_method req, endpoint_or_unknown req)) \<and>
         hcount (histogram_of (REQUEST_LATENCY reg') (req_method req, endpoint_or_unknown req)) =
           hcount (histogram_of (REQUEST_LATENCY reg) (req_method req, endpoint_or_unknown req)) + 1 \<and>
         hsum (histogram_of (REQUEST_LATENCY reg') (req_method req, endpoint_or_unknown req)) =
           hsum (histogram_of (REQUEST_LATENCY reg) (req_method req, endpoint_or_unknown req)) +
           (t_after clk - t_before clk) \<and>
         (\<forall>k. k \<noteq> (req_method req, endpoint_or_unknown req) \<longrightarrow>
            map_of (REQUEST_LATENCY reg') k = map_of (REQUEST_LATENCY reg) k)"
    unfolding c h
    by (simp add: counter_value_inc map_of_inc histogram_of_observe map_of_observe
        observe_value_def)
  have label: "endpoint_or_unknown req =
           (case dispatch req of
              Call Index \<Rightarrow> ''index''
            | Call Health \<Rightarrow> ''health''
            | Call Ready \<Rightarrow> ''ready''
            | Call Metrics \<Rightarrow> ''metrics''
            | Call Predict \<Rightarrow> ''predict''
            | Flask_response None s \<Rightarrow> ''unknown''
            | Flask_response (Some e) s \<Rightarrow> if e = [] then ''unknown'' else e)"
    by (simp add: endpoint_or_unknown_def split: dispatch.splits view.splits option.splits)
  have named: "endpoint_or_unknown req = view_name v \<and> view_name v \<noteq> ''unknown''"
    if "dispatch req = Call v" for v
    using that by (cases v) (simp_all add: endpoint_or_unknown_def)
  have called: "counter_value (REQUEST_COUNT reg') (req_method req, view_name v, status_code resp) =
              counter_value (REQUEST_COUNT reg) (req_method req, view_name v, status_code resp) + 1 \<and>
            hcount (histogram_of (REQUEST_LATENCY reg') (req_method req, view_name v)) =
              hcount (histogram_of (REQUEST_LATENCY reg) (req_method req, view_name v)) + 1 \<and>
            view_name v \<noteq> ''unknown'' \<and>
            map_of (REQUEST_COUNT reg') (req_method req, ''unknown'', status_code resp) =
              map_of (REQUEST_COUNT reg) (req_method req, ''unknown'', status_code resp) \<and>
            map_of (REQUEST_LATENCY reg') (req_method req, ''unknown'') =
              map_of (REQUEST_LATENCY reg) (req_method req, ''unknown'')"
    if "dispatch req = Call v" for v
  proof -
    from named [OF that] have e: "endpoint_or_unknown req = view_name v"
      and n: "view_name v \<noteq> ''unknown''"
      by simp_all
    from n have n': "''unknown'' \<noteq> view_name v"
      by (rule not_sym)
    from n n' show ?thesis
      unfolding c h e
      by (simp add: counter_value_inc map_of_inc histogram_of_observe map_of_observe
          observe_value_def)
  qed
  from series label called show ?thesis
    by blast
qed

theorem handle_request_counts_and_observes_once_witness:
  "counter_value (REQUEST_COUNT (snd (handle_request
      \<lparr>t_before = 10, utcnow_view = \<lparr>year = 2025, month = 1, day = 9, hour = 7, minute = 5,
         second = 0, microsecond = 0\<rparr>, t_after = 11\<rparr>
      \<lparr>req_method = ''GET'', dispatch = Call Health, get_json = Returns JNull,
         start_time = None\<rparr>
      \<lparr>REQUEST_COUNT = [((''GET'', ''unknown'', 404), 2), ((''GET'', ''health'', 200), 7)],
         REQUEST_LATENCY = [((''GET'', ''unknown''),
           \<lparr>bucket_counts = [0, 0, 0, 0, 0, 0, 0, 0, 0, 1, 2, 2, 2, 2], hsum = 3, hcount = 2\<rparr>)],
         PREDICTIONS_COUNT = []\<rparr>))) (''GET'', ''health'', 200) = 8 \<and>
   counter_value (REQUEST_COUNT (snd (handle_request
      \<lparr>t_before = 10, utcnow_view = \<lparr>year = 2025, month = 1, day = 9, hour = 7, minute = 5,
         second = 0, microsecond = 0\<rparr>, t_after = 11\<rparr>
      \<lparr>req_method = ''GET'', dispatch = Call Health, get_json = Returns JNull,
         start_time = None\<rparr>
      \<lparr>REQUEST_COUNT = [((''GET'', ''unknown'', 404), 2), ((''GET'', ''health'', 200), 7)],
         REQUEST_LATENCY = [((''GET'', ''unknown''),
           \<lparr>bucket_counts = [0, 0, 0, 0, 0, 0, 0, 0, 0, 1, 2, 2, 2, 2], hsum = 3, hcount = 2\<rparr>)],
         PREDICTIONS_COUNT = []\<rparr>))) (''GET'', ''unknown'', 404) = 2 \<and>
   counter_value (REQUEST_COUNT (snd (handle_request
      \<lparr>t_before = 10, utcnow_view = \<lparr>year = 2025, month = 1, day = 9, hour = 7, minute = 5,
         second = 0, microsecond = 0\<rparr>, t_after = 11\<rparr>
      \<lparr>req_method = ''GET'', dispatch = Call Health, get_json = Returns JNull,
         start_time = None\<rparr>
      \<lparr>REQUEST_COUNT = [((''GET'', ''unknown'', 404), 2), ((''GET'', ''health'', 200), 7)],
         REQUEST_LATENCY = [((''GET'', ''unknown''),
           \<lparr>bucket_counts = [0, 0, 0, 0, 0, 0, 0, 0, 0, 1, 2, 2, 2, 2], hsum = 3, hcount = 2\<rparr>)],
         PREDICTIONS_COUNT = []\<rparr>))) (''GET'', ''unknown'', 200) = 0 \<and>
   hcount (histogram_of (REQUEST_LATENCY (snd (handle_request
      \<lparr>t_before = 10, utcnow_view = \<lparr>year = 2025, month = 1, day = 9, hour = 7, minute = 5,
         second = 0, microsecond = 0\<rparr>, t_after = 11\<rparr>
      \<lparr>req_method = ''GET'', dispatch = Call Health, get_json = Returns JNull,
         start_time = None\<rparr>
      \<lparr>REQUEST_COUNT = [((''GET'', ''unknown'', 404), 2), ((''GET'', ''health'', 200), 7)],
         REQUEST_LATENCY = [((''GET'', ''unknown''),
           \<lparr>bucket_counts = [0, 0, 0, 0, 0, 0, 0, 0, 0, 1, 2, 2, 2, 2], hsum = 3, hcount = 2\<rparr>)],
         PREDICTIONS_COUNT = []\<rparr>))) (''GET'', ''health'')) = 1 \<and>
   hsum (histogram_of (REQUEST_LATENCY (snd (handle_request
      \<lparr>t_before = 10, utcnow_view = \<lparr>year = 2025, month = 1, day = 9, hour = 7, minute = 5,
         second = 0, microsecond = 0\<rparr>, t_after = 11\<rparr>
      \<lparr>req_method = ''GET'', dispatch = Call Health, get_json = Returns JNull,
         start_time = None\<rparr>
      \<lparr>REQUEST_COUNT = [((''GET'', ''unknown'', 404), 2), ((''GET'', ''health'', 200), 7)],
         REQUEST_LATENCY = [((''GET'', ''unknown''),
           \<lparr>bucket_counts = [0, 0, 0, 0, 0, 0, 0, 0, 0, 1, 2, 2, 2, 2], hsum = 3, hcount = 2\<rparr>)],
         PREDICTIONS_COUNT = []\<rparr>))) (''GET'', ''health'')) = 1 \<and>
   hcount (histogram_of (REQUEST_LATENCY (snd (handle_request
      \<lparr>t_before = 10, utcnow_view = \<lparr>year = 2025, month = 1, day = 9, hour = 7, minute = 5,
         second = 0, microsecond = 0\<rparr>, t_after = 11\<rparr>
      \<lparr>req_method = ''GET'', dispatch = Call Health, get_json = Returns JNull,
         start_time = None\<rparr>
      \<lparr>REQUEST_COUNT = [((''GET'', ''unknown'', 404), 2), ((''GET'', ''health'', 200), 7)],
         REQUEST_LATENCY = [((''GET'', ''unknown''),
           \<lparr>bucket_counts = [0, 0, 0, 0, 0, 0, 0, 0, 0, 1, 2, 2, 2, 2], hsum = 3, hcount = 2\<rparr>)],
         PREDICTIONS_COUNT = []\<rparr>))) (''GET'', ''unknown'')) = 2"
  using handle_request_counts_and_observes_once [of
      "\<lparr>t_before = 10, utcnow_view = \<lparr>year = 2025, month = 1, day = 9, hour = 7, minute = 5,
         second = 0, microsecond = 0\<rparr>, t_after = 11\<rparr>"
      "\<lparr>req_method = ''GET'', dispatch = Call Health, get_json = Returns JNull,
         start_time = None\<rparr>"
      "\<lparr>REQUEST_COUNT = [((''GET'', ''unknown'', 404), 2), ((''GET'', ''health'', 200), 7)],
         REQUEST_LATENCY = [((''GET'', ''unknown''),
           \<lparr>bucket_counts = [0, 0, 0, 0, 0, 0, 0, 0, 0, 1, 2, 2, 2, 2], hsum = 3, hcount = 2\<rparr>)],
         PREDICTIONS_COUNT = []\<rparr>"
      "fst (handle_request
      \<lparr>t_before = 10, utcnow_view = \<lparr>year = 2025, month = 1, day = 9, hour = 7, minute = 5,
         second = 0, microsecond = 0\<rparr>, t_after = 11\<rparr>
      \<lparr>req_method = ''GET'', dispatch = Call Health, get_json = Returns JNull,
         start_time = None\<rparr>
      \<lparr>REQUEST_COUNT = [((''GET'', ''unknown'', 404), 2), ((''GET'', ''health'', 200), 7)],
         REQUEST_LATENCY = [((''GET'', ''unknown''),
           \<lparr>bucket_counts = [0, 0, 0, 0, 0, 0, 0, 0, 0, 1, 2, 2, 2, 2], hsum = 3, hcount = 2\<rparr>)],
         PREDICTIONS_COUNT = []\<rparr>)"
      "snd (handle_request
      \<lparr>t_before = 10, utcnow_view = \<lparr>year = 2025, month = 1, day = 9, hour = 7, minute = 5,
         second = 0, microsecond = 0\<rparr>, t_after = 11\<rparr>
      \<lparr>req_method = ''GET'', dispatch = Call Health, get_json = Returns JNull,
         start_time = None\<rparr>
      \<lparr>REQUEST_COUNT = [((''GET'', ''unknown'', 404), 2), ((''GET'', ''health'', 200), 7)],
         REQUEST_LATENCY = [((''GET'', ''unknown''),
           \<lparr>bucket_counts = [0, 0, 0, 0, 0, 0, 0, 0, 0, 1, 2, 2, 2, 2], hsum = 3, hcount = 2\<rparr>)],
         PREDICTIONS_COUNT = []\<rparr>)"]
  by (simp add: run_defs)

lemma apply_op_mono:
  "counter_value (REQUEST_COUNT reg) k \<le> counter_value (REQUEST_COUNT (apply_op op reg)) k"
  "counter_value (PREDICTIONS_COUNT reg) m \<le> counter_value (PREDICTIONS_COUNT (apply_op op reg)) m"
  by (cases op; simp add: counter_value_inc)+

lemma apply_ops_mono:
  "counter_value (REQUEST_COUNT reg) k \<le> counter_value (REQUEST_COUNT (apply_ops ops reg)) k"
  "counter_value (PREDICTIONS_COUNT reg) m \<le> counter_value (PREDICTIONS_COUNT (apply_ops ops reg)) m"
proof (induction ops arbitrary: reg)
  case Nil
  {
    case 1
    show ?case by simp
  next
    case 2
    show ?case by simp
  }
next
  case (Cons op ops)
  {
    case 1
    show ?case using apply_op_mono(1) [of reg k op] Cons(1) [of "apply_op op reg"]
      by (simp del: apply_op.simps) 
  next
    case 2
    show ?case using apply_op_mono(2) [of reg m op] Cons(2) [of "apply_op op reg"]
      by (simp del: apply_op.simps)
  }
qed

lemma predict_frame:
  assumes "predict req now reg = (resp, reg1)"
  shows "status_code resp = 200 \<and> PREDICTIONS_COUNT reg1 = inc ''v1'' (PREDICTIONS_COUNT reg) \<or>
         (status_code resp = 400 \<or> status_code resp = 500) \<and>
           PREDICTIONS_COUNT reg1 = PREDICTIONS_COUNT reg"
  using assms
  by (auto simp: predict_def Let_def split: get_json_outcome.splits if_splits)

lemma handle_request_predictions:
  assumes "handle_request clk req reg = (resp, reg')"
  shows "\<exists>reg1. dispatch_request (before_request (t_before clk) req) (utcnow_view clk) reg = (resp, reg1)
           \<and> PREDICTIONS_COUNT reg' = PREDICTIONS_COUNT reg1"
  using assms by (rule handle_request_unfold) simp

lemma serve_mono:
  "serve rs reg = (resps, reg') \<Longrightarrow>
     counter_value (REQUEST_COUNT reg) k \<le> counter_value (REQUEST_COUNT reg') k \<and>
     counter_value (PREDICTIONS_COUNT reg) m \<le> counter_value (PREDICTIONS_COUNT reg') m"
proof (induction rs arbitrary: reg resps)
  case Nil
  then show ?case by simp
next
  case (Cons a rs)
  obtain clk req where a: "a = (clk, req)" by (cases a)
  obtain resp reg1 where h: "handle_request clk req reg = (resp, reg1)"
    by (cases "handle_request clk req reg")
  obtain resps1 reg2 where s: "serve rs reg1 = (resps1, reg2)" by (cases "serve rs reg1")
  from Cons.prems a h s have e: "reg' = reg2" by simp
  from handle_request_unfold [OF h] obtain reg0 where
    d: "dispatch_request (before_request (t_before clk) req) (utcnow_view clk) reg = (resp, reg0)"
    and r: "reg1 = reg0\<lparr>REQUEST_LATENCY :=
              observe (req_method req, endpoint_or_unknown req) (t_after clk - t_before clk)
                (REQUEST_LATENCY reg0),
            REQUEST_COUNT :=
              inc (req_method req, endpoint_or_unknown req, status_code resp) (REQUEST_COUNT reg0)\<rparr>"
    by blast
  have c: "counter_value (REQUEST_COUNT reg) k \<le> counter_value (REQUEST_COUNT reg1) k"
    by (simp add: r dispatch_request_frame [OF d] counter_value_inc)
  have "PREDICTIONS_COUNT reg0 = PREDICTIONS_COUNT reg \<or>
        PREDICTIONS_COUNT reg0 = inc ''v1'' (PREDICTIONS_COUNT reg)"
    using d predict_frame [of "before_request (t_before clk) req" "utcnow_view clk" reg resp reg0]
    by (auto simp: dispatch_request_def metrics_def split: dispatch.splits view.splits)
  then have p: "counter_value (PREDICTIONS_COUNT reg) m \<le> counter_value (PREDICTIONS_COUNT reg1) m"
    by (auto simp: r counter_value_inc)
  from s e have "serve rs reg1 = (resps1, reg')" by simp
  from Cons.IH [OF this] c p show ?case by auto
qed


text \<open>
  C7: over every sequence of registry operations, and over every sequence of requests
  that the service handles, the value of every counter series never decreases. The
  lookup of a new label combination creates the series at zero,
  and an increment adds exactly one to the series and changes no other.
\<close>

theorem counter_never_decreases:
  "counter_value (REQUEST_COUNT reg) k \<le> counter_value (REQUEST_COUNT (apply_ops ops reg)) k \<and>
   counter_value (PREDICTIONS_COUNT reg) m \<le>
     counter_value (PREDICTIONS_COUNT (apply_ops ops reg)) m \<and>
   (map_of fam l = None \<longrightarrow> map_of (labels l 0 fam) l = Some 0 \<and> map_of (inc l fam) l = Some 1) \<and>
   (\<forall>v. map_of fam l = Some v \<longrightarrow> labels l 0 fam = fam \<and> map_of (inc l fam) l = Some (v + 1)) \<and>
   counter_value (REQUEST_COUNT reg) k \<le> counter_value (REQUEST_COUNT (snd (serve rs reg))) k \<and>
   counter_value (PREDICTIONS_COUNT reg) m \<le>
     counter_value (PREDICTIONS_COUNT (snd (serve rs reg))) m \<and>
   counter_value (inc l fam) l = counter_value fam l + 1 \<and>
   (\<forall>l'. l' \<noteq> l \<longrightarrow> map_of (inc l fam) l' = map_of fam l')"
proof -
  have created: "map_of (labels l 0 fam) l = Some 0 \<and> map_of (inc l fam) l = Some 1"
    if "map_of fam l = None"
    using that by (simp add: map_of_labels map_of_inc counter_value_def)
  have kept: "labels l 0 fam = fam \<and> map_of (inc l fam) l = Some (v + 1)"
    if "map_of fam l = Some v" for v
    using that by (simp add: labels_def map_of_inc counter_value_def)
  have others: "map_of (inc l fam) l' = map_of fam l'" if "l' \<noteq> l" for l'
    using that by (simp add: map_of_inc)
  have served:
    "counter_value (REQUEST_COUNT reg) k \<le> counter_value (REQUEST_COUNT (snd (serve rs reg))) k \<and>
     counter_value (PREDICTIONS_COUNT reg) m \<le>
       counter_value (PREDICTIONS_COUNT (snd (serve rs reg))) m"
    by (rule serve_mono [of rs reg "fst (serve rs reg)"]) simp
  from created kept others served show ?thesis
    by (simp add: apply_ops_mono counter_value_inc)
qed

theorem counter_never_decreases_witness:
  "counter_value (REQUEST_COUNT (apply_ops
      [Inc_requests (''GET'', ''health'', 200), Render, Observe_latency (''GET'', ''health'') 1,
       Inc_requests (''GET'', ''health'', 200)] empty_registry)) (''GET'', ''health'', 200) = 2 \<and>
   map_of (inc ''v1'' ([] :: (string, nat) family)) ''v1'' = Some 1 \<and>
   map_of (inc ''v1'' [(''v1'', 1 :: nat)]) ''v1'' = Some 2"
  using counter_never_decreases [of empty_registry "(''GET'', ''health'', 200)"
      "[Inc_requests (''GET'', ''health'', 200), Render, Observe_latency (''GET'', ''health'') 1,
       Inc_requests (''GET'', ''health'', 200)]" "''v1''" "[] :: (string, nat) family" "''v1''"]
    counter_never_decreases [of empty_registry "(''GET'', ''health'', 200)" "[]" "''v1''"
      "[(''v1'', 1 :: nat)]" "''v1''"]
  by (simp add: run_defs)

text \<open>
  C10: handling a request that reaches \<^verbatim>\<open>predict\<close> answers with status 200, 400 or
  500. The series \<^verbatim>\<open>model="v1"\<close> of the predictions counter grows by exactly one if
  and only if the status is 200; with status 400 or 500 the whole predictions counter
  is unchanged. No other series of that counter changes in either case.
\<close>

theorem predict_counts_iff_200:
  assumes "dispatch req = Call Predict" and "handle_request clk req reg = (resp, reg')"
  shows "(status_code resp = 200 \<or> status_code resp = 400 \<or> status_code resp = 500) \<and>
         (counter_value (PREDICTIONS_COUNT reg') ''v1'' =
            counter_value (PREDICTIONS_COUNT reg) ''v1'' + 1
          \<longleftrightarrow> status_code resp = 200) \<and>
         (status_code resp \<noteq> 200 \<longrightarrow> PREDICTIONS_COUNT reg' = PREDICTIONS_COUNT reg) \<and>
         (\<forall>m. m \<noteq> ''v1'' \<longrightarrow>
            map_of (PREDICTIONS_COUNT reg') m = map_of (PREDICTIONS_COUNT reg) m)"
proof -
  from handle_request_predictions [OF assms(2)] obtain reg1 where
    d: "dispatch_request (before_request (t_before clk) req) (utcnow_view clk) reg = (resp, reg1)"
    and e: "PREDICTIONS_COUNT reg' = PREDICTIONS_COUNT reg1"
    by blast
  from d assms(1) have
    "predict (before_request (t_before clk) req) (utcnow_view clk) reg = (resp, reg1)"
    by (simp add: dispatch_request_view)
  from predict_frame [OF this] show ?thesis
    by (auto simp: e counter_value_inc map_of_inc)
qed

theorem predict_counts_iff_200_witness:
  "counter_value (PREDICTIONS_COUNT (snd (handle_request
      \<lparr>t_before = 10, utcnow_view = \<lparr>year = 2025, month = 1, day = 9, hour = 7, minute = 5,
         second = 0, microsecond = 0\<rparr>, t_after = 11\<rparr>
      \<lparr>req_method = ''POST'', dispatch = Call Predict,
         get_json = Returns (JObj [(''x'', JInt 1)]), start_time = None\<rparr>
      empty_registry))) ''v1'' = 1 \<and>
   status_code (fst (handle_request
      \<lparr>t_before = 10, utcnow_view = \<lparr>year = 2025, month = 1, day = 9, hour = 7, minute = 5,
         second = 0, microsecond = 0\<rparr>, t_after = 11\<rparr>
      \<lparr>req_method = ''POST'', dispatch = Call Predict,
         get_json = Returns (JObj [(''x'', JInt 1)]), start_time = None\<rparr>
      empty_registry)) = 200"
  using predict_counts_iff_200 [of
      "\<lparr>req_method = ''POST'', dispatch = Call Predict,
         get_json = Returns (JObj [(''x'', JInt 1)]), start_time = None\<rparr>"
      "\<lparr>t_before = 10, utcnow_view = \<lparr>year = 2025, month = 1, day = 9, hour = 7, minute = 5,
         second = 0, microsecond = 0\<rparr>, t_after = 11\<rparr>"
      empty_registry
      "fst (handle_request
      \<lparr>t_before = 10, utcnow_view = \<lparr>year = 2025, month = 1, day = 9, hour = 7, minute = 5,
         second = 0, microsecond = 0\<rparr>, t_after = 11\<rparr>
      \<lparr>req_method = ''POST'', dispatch = Call Predict,
         get_json = Returns (JObj [(''x'', JInt 1)]), start_time = None\<rparr>
      empty_registry)"
      "snd (handle_request
      \<lparr>t_before = 10, utcnow_view = \<lparr>year = 2025, month = 1, day = 9, hour = 7, minute = 5,
         second = 0, microsecond = 0\<rparr>, t_after = 11\<rparr>
      \<lparr>req_method = ''POST'', dispatch = Call Predict,
         get_json = Returns (JObj [(''x'', JInt 1)]), start_time = None\<rparr>
      empty_registry)"]
  by (simp add: run_defs)

text \<open>
  C1, as stated, fails: the body \<^verbatim>\<open>{}\<close> is a valid JSON object, \<^verbatim>\<open>not data\<close> holds for
  the empty dict, and the response is 400 without any of the four fields.
\<close>

theorem predict_empty_object_counterexample:
  "fst (handle_request
     \<lparr>t_before = 10, utcnow_view = \<lparr>year = 2025, month = 1, day = 9, hour = 7, minute = 5,
        second = 0, microsecond = 0\<rparr>, t_after = 11\<rparr>
     \<lparr>req_method = ''POST'', dispatch = Call Predict, get_json = Returns (JObj []),
        start_time = None\<rparr>
     empty_registry) =
   \<lparr>status_code = 400, payload = Json (JObj [(''error'', JStr ''No input data provided'')])\<rparr>"
  by (simp add: run_defs)

text \<open>
  C1, amended: when \<^verbatim>\<open>get_json\<close> returns a JSON object that is not empty, the response
  has status 200 and its body has the four fields \<^verbatim>\<open>prediction\<close>, \<^verbatim>\<open>confidence\<close>,
  \<^verbatim>\<open>model_version\<close> and \<^verbatim>\<open>timestamp\<close>, with the prediction \<^verbatim>\<open>example_result\<close> and the
  confidence 0.95, which lies in [0, 1].
\<close>

theorem predict_nonempty_object:
  assumes "dispatch req = Call Predict" and "get_json req = Returns (JObj kvs)" and "kvs \<noteq> []"
  shows "\<exists>body c. fst (handle_request clk req reg) = \<lparr>status_code = 200, payload = Json body\<rparr> \<and>
           field body ''prediction'' = Some (JStr ''example_result'') \<and>
           field body ''confidence'' = Some (JFloat c) \<and> c = 95 / 100 \<and> 0 \<le> c \<and> c \<le> 1 \<and>
           field body ''model_version'' = Some (JStr ''1.0.0'') \<and>
           field body ''timestamp'' = Some (JStr (isoformat (utcnow_view clk)))"
proof -
  let ?body = "JObj [(''prediction'', JStr ''example_result''),
                     (''confidence'', JFloat (95 / 100)),
                     (''model_version'', JStr ''1.0.0''),
                     (''timestamp'', JStr (isoformat (utcnow_view clk)))]"
  have "fst (handle_request clk req reg) = \<lparr>status_code = 200, payload = Json ?body\<rparr>"
    using assms
    by (simp add: fst_handle_request dispatch_request_view predict_def jsonify_def Let_def)
  moreover have "field ?body ''prediction'' = Some (JStr ''example_result'')"
    and "field ?body ''confidence'' = Some (JFloat (95 / 100))"
    and "field ?body ''model_version'' = Some (JStr ''1.0.0'')"
    and "field ?body ''timestamp'' = Some (JStr (isoformat (utcnow_view clk)))"
    by simp_all
  moreover have "(0::real) \<le> 95 / 100" and "(95::real) / 100 \<le> 1"
    by simp_all
  ultimately show ?thesis
    by blast
qed

theorem predict_nonempty_object_witness:
  "fst (handle_request
     \<lparr>t_before = 10, utcnow_view = \<lparr>year = 2025, month = 1, day = 9, hour = 7, minute = 5,
        second = 0, microsecond = 0\<rparr>, t_after = 11\<rparr>
     \<lparr>req_method = ''POST'', dispatch = Call Predict,
        get_json = Returns (JObj [(''x'', JInt 1)]), start_time = None\<rparr>
     empty_registry) =
   \<lparr>status_code = 200,
    payload = Json (JObj [(''prediction'', JStr ''example_result''),
                          (''confidence'', JFloat (95 / 100)),
                          (''model_version'', JStr ''1.0.0''),
                          (''timestamp'', JStr ''2025-01-09T07:05:00'')])\<rparr>"
  using predict_nonempty_object [of
      "\<lparr>req_method = ''POST'', dispatch = Call Predict,
        get_json = Returns (JObj [(''x'', JInt 1)]), start_time = None\<rparr>"
      "[(''x'', JInt 1)]"
      "\<lparr>t_before = 10, utcnow_view = \<lparr>year = 2025, month = 1, day = 9, hour = 7, minute = 5,
        second = 0, microsecond = 0\<rparr>, t_after = 11\<rparr>"
      empty_registry]
  by (simp add: run_defs isoformat_def dec2_def dec4_def digit_def char_of_digits)

text \<open>
  C2: a request whose body does not parse, sent with a JSON content type, makes
  \<^verbatim>\<open>get_json\<close> raise; the handler of \<^verbatim>\<open>predict\<close> catches the exception and the
  response is 500 with the error \<^verbatim>\<open>Internal server error\<close>, in every state.
\<close>

theorem predict_unparsable_body_500:
  "fst (handle_request clk
     \<lparr>req_method = ''POST'', dispatch = Call Predict, get_json = Raises BadRequest,
        start_time = None\<rparr> reg) =
   \<lparr>status_code = 500, payload = Json (JObj [(''error'', JStr ''Internal server error'')])\<rparr>"
  by (simp add: fst_handle_request dispatch_request_view predict_def jsonify_def)

lemma predict_falsy_400:
  assumes "dispatch req = Call Predict" and "get_json req = Returns data" and "\<not> truthy data"
  shows "fst (handle_request clk req reg) =
    \<lparr>status_code = 400, payload = Json (JObj [(''error'', JStr ''No input data provided'')])\<rparr>"
  using assms by (simp add: fst_handle_request dispatch_request_view predict_def jsonify_def)

text \<open>
  C3, as stated, fails: the scrape is a request like any other. Of two consecutive
  requests to \<^verbatim>\<open>/metrics\<close> that start in the empty registry, the first exposition has
  no line for the series (GET, metrics, 200) of the request counter and the second
  shows 1 for it, and the first request has changed the latency histograms.
\<close>

theorem metrics_twice_counterexample:
  "shown_requests_total (exposition (fst (handle_request
      \<lparr>t_before = 10, utcnow_view = \<lparr>year = 2025, month = 1, day = 9, hour = 7, minute = 5,
         second = 0, microsecond = 0\<rparr>, t_after = 11\<rparr>
      \<lparr>req_method = ''GET'', dispatch = Call Metrics, get_json = Returns JNull, start_time = None\<rparr>
      empty_registry))) (''GET'', ''metrics'', 200) = None \<and>
   shown_requests_total (exposition (fst (handle_request
      \<lparr>t_before = 12, utcnow_view = \<lparr>year = 2025, month = 1, day = 9, hour = 7, minute = 5,
         second = 2, microsecond = 0\<rparr>, t_after = 13\<rparr>
      \<lparr>req_method = ''GET'', dispatch = Call Metrics, get_json = Returns JNull, start_time = None\<rparr>
      (snd (handle_request
        \<lparr>t_before = 10, utcnow_view = \<lparr>year = 2025, month = 1, day = 9, hour = 7, minute = 5,
           second = 0, microsecond = 0\<rparr>, t_after = 11\<rparr>
        \<lparr>req_method = ''GET'', dispatch = Call Metrics, get_json = Returns JNull,
           start_time = None\<rparr>
        empty_registry))))) (''GET'', ''metrics'', 200) = Some 1 \<and>
   REQUEST_LATENCY empty_registry = [] \<and>
   REQUEST_LATENCY (snd (handle_request
      \<lparr>t_before = 10, utcnow_view = \<lparr>year = 2025, month = 1, day = 9, hour = 7, minute = 5,
         second = 0, microsecond = 0\<rparr>, t_after = 11\<rparr>
      \<lparr>req_method = ''GET'', dispatch = Call Metrics, get_json = Returns JNull, start_time = None\<rparr>
      empty_registry)) =
     [((''GET'', ''metrics''),
       \<lparr>bucket_counts = [0, 0, 0, 0, 0, 0, 0, 0, 0, 1, 1, 1, 1, 1], hsum = 1, hcount = 1\<rparr>)]"
  by (simp add: run_defs)

text \<open>
  C3, amended: the render itself leaves the registry as it is, so two renders of one
  registry are the same exposition. A request to \<^verbatim>\<open>/metrics\<close> is counted like every
  request: of two consecutive such requests, the second exposition shows the series
  (method, metrics, 200) of the request counter one higher than the first and every
  other counter series with the identical value; the first request adds one
  observation to the histogram series (method, metrics) and leaves every other
  histogram series unchanged.
\<close>

theorem metrics_twice:
  assumes "dispatch req = Call Metrics"
    and "handle_request clk1 req reg = (resp1, reg1)"
    and "handle_request clk2 req reg1 = (resp2, reg2)"
  shows "snd (metrics reg) = reg \<and>
         exposition (fst (metrics reg)) = generate_latest reg \<and>
         exposition resp1 = generate_latest reg \<and>
         exposition resp2 = generate_latest reg1 \<and>
         shown_requests_total (exposition resp2) (req_method req, ''metrics'', 200) =
           Some (counter_value (REQUEST_COUNT reg) (req_method req, ''metrics'', 200) + 1) \<and>
         (\<forall>k. k \<noteq> (req_method req, ''metrics'', 200) \<longrightarrow>
            shown_requests_total (exposition resp2) k = shown_requests_total (exposition resp1) k) \<and>
         (\<forall>m. shown_predictions_total (exposition resp2) m =
            shown_predictions_total (exposition resp1) m) \<and>
         histogram_of (REQUEST_LATENCY reg1) (req_method req, ''metrics'') =
           observe_value (t_after clk1 - t_before clk1)
             (histogram_of (REQUEST_LATENCY reg) (req_method req, ''metrics'')) \<and>
         (\<forall>k. k \<noteq> (req_method req, ''metrics'') \<longrightarrow>
            map_of (REQUEST_LATENCY reg1) k = map_of (REQUEST_LATENCY reg) k)"
proof -
  have e: "endpoint_or_unknown req = ''metrics''"
    using assms(1) by (simp add: endpoint_or_unknown_def)
  have d: "dispatch_request (before_request t req) now r =
      (\<lparr>status_code = 200, payload = Text (generate_latest r)\<rparr>, r)" for t now r
    using assms(1) by (simp add: dispatch_request_view metrics_def)
  from assms(2) have r1: "resp1 = \<lparr>status_code = 200, payload = Text (generate_latest reg)\<rparr>"
    and c1: "REQUEST_COUNT reg1 = inc (req_method req, ''metrics'', 200) (REQUEST_COUNT reg)"
    and h1: "REQUEST_LATENCY reg1 =
      observe (req_method req, ''metrics'') (t_after clk1 - t_before clk1) (REQUEST_LATENCY reg)"
    and p1: "PREDICTIONS_COUNT reg1 = PREDICTIONS_COUNT reg"
    by (auto simp: handle_request_def after_request_def d e Let_def)
  from assms(3) have r2: "resp2 = \<lparr>status_code = 200, payload = Text (generate_latest reg1)\<rparr>"
    by (auto simp: handle_request_def after_request_def d e Let_def)
  have x1: "exposition resp1 = generate_latest reg" and x2: "exposition resp2 = generate_latest reg1"
    by (simp_all add: r1 r2 exposition_def)
  show ?thesis
    unfolding x1 x2 shown_requests_total_generate_latest shown_predictions_total_generate_latest
      c1 h1 p1
    by (simp add: metrics_def exposition_def map_of_inc histogram_of_observe map_of_observe)
qed

theorem metrics_twice_witness:
  "shown_requests_total (exposition (fst (handle_request
      \<lparr>t_before = 12, utcnow_view = \<lparr>year = 2025, month = 1, day = 9, hour = 7, minute = 5,
         second = 2, microsecond = 0\<rparr>, t_after = 13\<rparr>
      \<lparr>req_method = ''GET'', dispatch = Call Metrics, get_json = Returns JNull, start_time = None\<rparr>
      (snd (handle_request
        \<lparr>t_before = 10, utcnow_view = \<lparr>year = 2025, month = 1, day = 9, hour = 7, minute = 5,
           second = 0, microsecond = 0\<rparr>, t_after = 11\<rparr>
        \<lparr>req_method = ''GET'', dispatch = Call Metrics, get_json = Returns JNull,
           start_time = None\<rparr>
        \<lparr>REQUEST_COUNT = [((''GET'', ''metrics'', 200), 4), ((''GET'', ''health'', 200), 7)],
           REQUEST_LATENCY = [], PREDICTIONS_COUNT = [(''v1'', 3)]\<rparr>))))) (''GET'', ''metrics'', 200)
     = Some 5"
  using metrics_twice [of
      "\<lparr>req_method = ''GET'', dispatch = Call Metrics, get_json = Returns JNull, start_time = None\<rparr>"
      "\<lparr>t_before = 10, utcnow_view = \<lparr>year = 2025, month = 1, day = 9, hour = 7, minute = 5,
           second = 0, microsecond = 0\<rparr>, t_after = 11\<rparr>"
      "\<lparr>REQUEST_COUNT = [((''GET'', ''metrics'', 200), 4), ((''GET'', ''health'', 200), 7)],
           REQUEST_LATENCY = [], PREDICTIONS_COUNT = [(''v1'', 3)]\<rparr>"
      "fst (handle_request
        \<lparr>t_before = 10, utcnow_view = \<lparr>year = 2025, month = 1, day = 9, hour = 7, minute = 5,
           second = 0, microsecond = 0\<rparr>, t_after = 11\<rparr>
        \<lparr>req_method = ''GET'', dispatch = Call Metrics, get_json = Returns JNull,
           start_time = None\<rparr>
        \<lparr>REQUEST_COUNT = [((''GET'', ''metrics'', 200), 4), ((''GET'', ''health'', 200), 7)],
           REQUEST_LATENCY = [], PREDICTIONS_COUNT = [(''v1'', 3)]\<rparr>)"
      "snd (handle_request
        \<lparr>t_before = 10, utcnow_view = \<lparr>year = 2025, month = 1, day = 9, hour = 7, minute = 5,
           second = 0, microsecond = 0\<rparr>, t_after = 11\<rparr>
        \<lparr>req_method = ''GET'', dispatch = Call Metrics, get_json = Returns JNull,
           start_time = None\<rparr>
        \<lparr>REQUEST_COUNT = [((''GET'', ''metrics'', 200), 4), ((''GET'', ''health'', 200), 7)],
           REQUEST_LATENCY = [], PREDICTIONS_COUNT = [(''v1'', 3)]\<rparr>)"
      "\<lparr>t_before = 12, utcnow_view = \<lparr>year = 2025, month = 1, day = 9, hour = 7, minute = 5,
         second = 2, microsecond = 0\<rparr>, t_after = 13\<rparr>"
      "fst (handle_request
      \<lparr>t_before = 12, utcnow_view = \<lparr>year = 2025, month = 1, day = 9, hour = 7, minute = 5,
         second = 2, microsecond = 0\<rparr>, t_after = 13\<rparr>
      \<lparr>req_method = ''GET'', dispatch = Call Metrics, get_json = Returns JNull, start_time = None\<rparr>
      (snd (handle_request
        \<lparr>t_before = 10, utcnow_view = \<lparr>year = 2025, month = 1, day = 9, hour = 7, minute = 5,
           second = 0, microsecond = 0\<rparr>, t_after = 11\<rparr>
        \<lparr>req_method = ''GET'', dispatch = Call Metrics, get_json = Returns JNull,
           start_time = None\<rparr>
        \<lparr>REQUEST_COUNT = [((''GET'', ''metrics'', 200), 4), ((''GET'', ''health'', 200), 7)],
           REQUEST_LATENCY = [], PREDICTIONS_COUNT = [(''v1'', 3)]\<rparr>)))"
      "snd (handle_request
      \<lparr>t_before = 12, utcnow_view = \<lparr>year = 2025, month = 1, day = 9, hour = 7, minute = 5,
         second = 2, microsecond = 0\<rparr>, t_after = 13\<rparr>
      \<lparr>req_method = ''GET'', dispatch = Call Metrics, get_json = Returns JNull, start_time = None\<rparr>
      (snd (handle_request
        \<lparr>t_before = 10, utcnow_view = \<lparr>year = 2025, month = 1, day = 9, hour = 7, minute = 5,
           second = 0, microsecond = 0\<rparr>, t_after = 11\<rparr>
        \<lparr>req_method = ''GET'', dispatch = Call Metrics, get_json = Returns JNull,
           start_time = None\<rparr>
        \<lparr>REQUEST_COUNT = [((''GET'', ''metrics'', 200), 4), ((''GET'', ''health'', 200), 7)],
           REQUEST_LATENCY = [], PREDICTIONS_COUNT = [(''v1'', 3)]\<rparr>)))"]
  by (simp add: run_defs)

end
